theory Spec2Isabelle
  imports Complex_Main
begin

section \<open>Values shared by the encoder model\<close>

text \<open>
  The encoder works on floating-point tensors. Scalars are modelled as real numbers with
  exact arithmetic, tensors as nested lists in the axis order of the source. Exceptions
  raised by the array runtime or by Python are values of the type below.
\<close>

datatype error = RuntimeError | AssertionError | IndexError | KeyError | AttributeError

text \<open>Sequencing of fallible steps: the first error ends the computation.\<close>

definition ebind :: "error + 'a \<Rightarrow> ('a \<Rightarrow> error + 'b) \<Rightarrow> error + 'b" where
  "ebind m f = (case m of Inl e \<Rightarrow> Inl e | Inr x \<Rightarrow> f x)"

section \<open>Reference points (get_reference_points)\<close>

text \<open>
  \<open>torch.linspace(start, end, steps)\<close>: \<open>steps\<close> evenly spaced values from \<open>start\<close> to
  \<open>end\<close> inclusive; a single step yields \<open>start\<close> alone, a negative count is rejected.
\<close>

definition linspace :: "real \<Rightarrow> real \<Rightarrow> int \<Rightarrow> error + real list" where
  "linspace start end steps =
     (if steps < 0 then Inl RuntimeError
      else if steps = 1 then Inr [start]
      else Inr (map (\<lambda>i. start + real i * ((end - start) / (real_of_int steps - 1)))
                   [0..<nat steps]))"

text \<open>
  \<open>t[None].repeat(bs, ...)\<close>: \<open>bs\<close> copies along a new leading axis; a negative count is
  rejected by the runtime.
\<close>

definition repeat_batch :: "int \<Rightarrow> 'a \<Rightarrow> error + 'a list" where
  "repeat_batch bs t = (if bs < 0 then Inl RuntimeError else Inr (replicate (nat bs) t))"

datatype ref_points =
    Ref3D "(real \<times> real \<times> real) list list list"
  | Ref2D "(real \<times> real) list list list"
  | NoneValue

text \<open>
  The 3D branch (source lines 76-86): \<open>zs\<close>, \<open>xs\<close>, \<open>ys\<close> are expanded to shape (D, H, W),
  stacked on a last axis and flattened so that the point of row \<open>r\<close> and column \<open>c\<close> sits at
  index \<open>r * W + c\<close> of its level; the result has shape (bs, D, H * W, 3).
\<close>

definition ref_3d_grid :: "real list \<Rightarrow> real list \<Rightarrow> real list \<Rightarrow> int \<Rightarrow> int \<Rightarrow> real
    \<Rightarrow> (real \<times> real \<times> real) list list" where
  "ref_3d_grid zs ys xs H W Z =
     map (\<lambda>z. concat (map (\<lambda>y. map (\<lambda>x. (x / real_of_int W, y / real_of_int H, z / Z)) xs) ys)) zs"

text \<open>
  The 2D branch (source lines 89-100): a meshgrid with \<open>ij\<close> indexing, flattened row by row,
  with a singleton level axis; the result has shape (bs, H * W, 1, 2).
\<close>

definition ref_2d_grid :: "real list \<Rightarrow> real list \<Rightarrow> int \<Rightarrow> int \<Rightarrow> (real \<times> real) list list" where
  "ref_2d_grid ys xs H W =
     concat (map (\<lambda>y. map (\<lambda>x. [(x / real_of_int W, y / real_of_int H)]) xs) ys)"

definition get_reference_points ::
    "int \<Rightarrow> int \<Rightarrow> real \<Rightarrow> int \<Rightarrow> string \<Rightarrow> int \<Rightarrow> error + ref_points" where
  "get_reference_points H W Z num_points_in_pillar dim_arg bs =
     (if dim_arg = ''3d'' then
        ebind (linspace 0.5 (Z - 0.5) num_points_in_pillar) (\<lambda>zs.
        ebind (linspace 0.5 (real_of_int W - 0.5) W) (\<lambda>xs.
        ebind (linspace 0.5 (real_of_int H - 0.5) H) (\<lambda>ys.
        ebind (repeat_batch bs (ref_3d_grid zs ys xs H W Z)) (\<lambda>r.
        Inr (Ref3D r)))))
      else if dim_arg = ''2d'' then
        ebind (linspace 0.5 (real_of_int H - 0.5) H) (\<lambda>ys.
        ebind (linspace 0.5 (real_of_int W - 0.5) W) (\<lambda>xs.
        ebind (repeat_batch bs (ref_2d_grid ys xs H W)) (\<lambda>r.
        Inr (Ref2D r))))
      else Inr NoneValue)"

text \<open>The two sequences \<open>linspace\<close> produces in get_reference_points, in closed form.\<close>

definition centers :: "int \<Rightarrow> real list" where
  "centers n = map (\<lambda>i. real i + 0.5) [0..<nat n]"

definition levels :: "real \<Rightarrow> int \<Rightarrow> real list" where
  "levels Z n = map (\<lambda>l. if n = 1 then 0.5 else 0.5 + real l * ((Z - 1) / (real_of_int n - 1)))
                    [0..<nat n]"

section \<open>One encoder layer (VoxFormerLayer.forward)\<close>

text \<open>
  Feature tensors \<open>'t\<close>, masks \<open>'m\<close>, sampling geometry \<open>'g\<close> and the extra keyword
  arguments \<open>'k\<close> are opaque to the layer: it only routes them to its sub-modules. The
  sub-modules themselves (attention, normalisation, feed-forward) are external functions.
\<close>

record ('t, 'm, 'g, 'k) attn_call =
  ac_query :: 't
  ac_key :: "'t option"
  ac_value :: "'t option"
  ac_identity :: "'t option"
  ac_query_pos :: "'t option"
  ac_key_pos :: "'t option"
  ac_attn_mask :: "'m option"
  ac_key_padding_mask :: "'m option"
  ac_reference_points :: "'g option"
  ac_reference_points_cam :: "'g option"
  ac_mask :: "'m option"
  ac_spatial_shapes :: "(int \<times> int) list option"
  ac_level_start_index :: "int list option"
  ac_kwargs :: 'k

record ('t, 'm, 'g, 'k) vox_layer =
  operation_order :: "string list"
  attentions :: "(('t, 'm, 'g, 'k) attn_call \<Rightarrow> 't) list"
  norms :: "('t \<Rightarrow> 't) list"
  ffns :: "('t \<Rightarrow> 't option \<Rightarrow> 't) list"
  num_attn :: nat
  pre_norm :: bool

text \<open>The arguments of one call of the layer, apart from \<open>query\<close> and \<open>attn_masks\<close>.\<close>

record ('t, 'm, 'g, 'k) layer_args =
  la_key :: "'t option"
  la_value :: "'t option"
  la_bev_pos :: "'t option"
  la_query_pos :: "'t option"
  la_key_pos :: "'t option"
  la_query_key_padding_mask :: "'m option"
  la_key_padding_mask :: "'m option"
  la_ref_2d :: "'g option"
  la_ref_3d :: "'g option"
  la_bev_h :: "int option"
  la_bev_w :: "int option"
  la_reference_points_cam :: "'g option"
  la_mask :: "'m option"
  la_spatial_shapes :: "(int \<times> int) list option"
  la_level_start_index :: "int list option"
  la_prev_bev :: "'t option"
  la_kwargs :: 'k

text \<open>
  \<open>attn_masks\<close> is \<open>None\<close>, one tensor, or a list with one entry per attention.
\<close>

datatype 'm attn_masks_arg = MasksNone | MasksTensor 'm | MasksList "'m option list"

definition same_mask_warning :: string where
  "same_mask_warning = ''Use same attn_mask in all attentions in VoxFormerLayer ''"

text \<open>
  Source lines 434-446. The result is the list of warnings issued and either the
  per-attention mask list or the failed assertion.
\<close>

fun resolve_attn_masks :: "nat \<Rightarrow> 'm attn_masks_arg \<Rightarrow> string list \<times> (error + 'm option list)" where
  "resolve_attn_masks n MasksNone = ([], Inr (replicate n None))"
| "resolve_attn_masks n (MasksTensor m) = ([same_mask_warning], Inr (replicate n (Some m)))"
| "resolve_attn_masks n (MasksList ms) =
     ([], if length ms = n then Inr ms else Inl AssertionError)"

text \<open>Indexing a Python list or a module list: out of range raises IndexError.\<close>

definition index_list :: "'a list \<Rightarrow> nat \<Rightarrow> error + 'a" where
  "index_list xs i = (if i < length xs then Inr (xs ! i) else Inl IndexError)"

text \<open>
  The one-row tensor that \<open>torch.tensor\<close> builds from \<open>bev_h\<close> and \<open>bev_w\<close>: the runtime cannot
  build a tensor from \<open>None\<close>.
\<close>

definition bev_shape_tensor :: "int option \<Rightarrow> int option \<Rightarrow> error + (int \<times> int) list" where
  "bev_shape_tensor h w =
     (case (h, w) of (Some h', Some w') \<Rightarrow> Inr [(h', w')] | _ \<Rightarrow> Inl RuntimeError)"

text \<open>The variables the loop over \<open>operation_order\<close> carries (source lines 430-433).\<close>

record 't loop_state =
  query :: 't
  identity :: 't
  attn_index :: nat
  norm_index :: nat
  ffn_index :: nat

definition residual :: "('t, 'm, 'g, 'k) vox_layer \<Rightarrow> 't loop_state \<Rightarrow> 't option" where
  "residual L st = (if pre_norm L then Some (identity st) else None)"

text \<open>One iteration of the loop: the \<open>if\<close>/\<open>elif\<close> chain of source lines 450-496.\<close>

definition layer_step :: "('t, 'm, 'g, 'k) vox_layer \<Rightarrow> ('t, 'm, 'g, 'k) layer_args \<Rightarrow>
    'm option list \<Rightarrow> string \<Rightarrow> 't loop_state \<Rightarrow> error + 't loop_state" where
  "layer_step L a masks layer st =
     (if layer = ''self_attn'' then
        ebind (index_list (attentions L) (attn_index st)) (\<lambda>attn.
        ebind (index_list masks (attn_index st)) (\<lambda>attn_mask.
        ebind (bev_shape_tensor (la_bev_h a) (la_bev_w a)) (\<lambda>shapes.
        let q = attn \<lparr>ac_query = query st, ac_key = la_prev_bev a, ac_value = la_prev_bev a,
                  ac_identity = residual L st,
                  ac_query_pos = la_bev_pos a, ac_key_pos = la_bev_pos a,
                  ac_attn_mask = attn_mask,
                  ac_key_padding_mask = la_query_key_padding_mask a,
                  ac_reference_points = la_ref_2d a, ac_reference_points_cam = None,
                  ac_mask = None,
                  ac_spatial_shapes = Some shapes, ac_level_start_index = Some [0],
                  ac_kwargs = la_kwargs a\<rparr>
        in Inr (st\<lparr>query := q, attn_index := attn_index st + 1, identity := q\<rparr>))))
      else if layer = ''norm'' then
        ebind (index_list (norms L) (norm_index st)) (\<lambda>norm.
        Inr (st\<lparr>query := norm (query st), norm_index := norm_index st + 1\<rparr>))
      else if layer = ''cross_attn'' then
        ebind (index_list (attentions L) (attn_index st)) (\<lambda>attn.
        ebind (index_list masks (attn_index st)) (\<lambda>attn_mask.
        let q = attn \<lparr>ac_query = query st, ac_key = la_key a, ac_value = la_value a,
                  ac_identity = residual L st,
                  ac_query_pos = la_query_pos a, ac_key_pos = la_key_pos a,
                  ac_attn_mask = attn_mask,
                  ac_key_padding_mask = la_key_padding_mask a,
                  ac_reference_points = la_ref_3d a,
                  ac_reference_points_cam = la_reference_points_cam a,
                  ac_mask = la_mask a,
                  ac_spatial_shapes = la_spatial_shapes a,
                  ac_level_start_index = la_level_start_index a,
                  ac_kwargs = la_kwargs a\<rparr>
        in Inr (st\<lparr>query := q, attn_index := attn_index st + 1, identity := q\<rparr>)))
      else if layer = ''ffn'' then
        ebind (index_list (ffns L) (ffn_index st)) (\<lambda>ffn.
        Inr (st\<lparr>query := ffn (query st) (residual L st), ffn_index := ffn_index st + 1\<rparr>))
      else Inr st)"

text \<open>The loop of source line 448: the tags are processed left to right.\<close>

fun run_operations :: "('t, 'm, 'g, 'k) vox_layer \<Rightarrow> ('t, 'm, 'g, 'k) layer_args \<Rightarrow>
    'm option list \<Rightarrow> string list \<Rightarrow> 't loop_state \<Rightarrow> error + 't loop_state" where
  "run_operations L a masks [] st = Inr st"
| "run_operations L a masks (layer # rest) st =
     ebind (layer_step L a masks layer st) (run_operations L a masks rest)"

text \<open>
  VoxFormerLayer.forward: the warnings issued, and the final \<open>query\<close> or the error raised.
\<close>

definition layer_forward :: "('t, 'm, 'g, 'k) vox_layer \<Rightarrow> 't \<Rightarrow> 'm attn_masks_arg \<Rightarrow>
    ('t, 'm, 'g, 'k) layer_args \<Rightarrow> string list \<times> (error + 't)" where
  "layer_forward L q attn_masks a =
     (let st0 = \<lparr>query = q, identity = q, attn_index = 0, norm_index = 0, ffn_index = 0\<rparr>;
          (warnings, masks) = resolve_attn_masks (num_attn L) attn_masks
      in (warnings,
          ebind masks (\<lambda>ms.
          ebind (run_operations L a ms (operation_order L) st0) (\<lambda>st.
          Inr (query st)))))"

definition known_tag :: "string \<Rightarrow> bool" where
  "known_tag layer = (layer \<in> {''self_attn'', ''norm'', ''cross_attn'', ''ffn''})"

text \<open>
  A small layer over natural numbers, used to run the model: one normalisation adding 1
  and one feed-forward block doubling its input, with a tag in between that the layer does
  not know.
\<close>

definition example_layer :: "(nat, unit, unit, unit) vox_layer" where
  "example_layer =
     \<lparr>operation_order = [''norm'', ''dropout'', ''ffn''], attentions = [],
      norms = [\<lambda>x. x + 1], ffns = [\<lambda>x r. 2 * x], num_attn = 0, pre_norm = False\<rparr>"

definition example_layer_args :: "(nat, unit, unit, unit) layer_args" where
  "example_layer_args =
     \<lparr>la_key = None, la_value = None, la_bev_pos = None, la_query_pos = None,
      la_key_pos = None, la_query_key_padding_mask = None, la_key_padding_mask = None,
      la_ref_2d = None, la_ref_3d = None, la_bev_h = Some 128, la_bev_w = Some 128,
      la_reference_points_cam = None, la_mask = None, la_spatial_shapes = None,
      la_level_start_index = None, la_prev_bev = None, la_kwargs = ()\<rparr>"

section \<open>Camera projection (point_sampling)\<close>

subsection \<open>Vectors and matrices\<close>

type_synonym vec = "real list"
type_synonym mat = "real list list"
type_synonym point3 = "real \<times> real \<times> real"

definition matvec :: "mat \<Rightarrow> vec \<Rightarrow> vec" where
  "matvec m v = map (\<lambda>row. sum_list (map2 (*) row v)) m"

definition is_square :: "nat \<Rightarrow> mat \<Rightarrow> bool" where
  "is_square n m = (length m = n \<and> list_all (\<lambda>row. length row = n) m)"

text \<open>The size of the last axis of a matrix (\<open>shape[-1]\<close>).\<close>

definition ncols :: "mat \<Rightarrow> nat" where
  "ncols m = (case m of [] \<Rightarrow> 0 | row # _ \<Rightarrow> length row)"

text \<open>
  \<open>torch.inverse\<close>: the inverse of a square matrix, here by cofactors; a singular matrix
  is rejected by the runtime.
\<close>

definition minor :: "mat \<Rightarrow> nat \<Rightarrow> nat \<Rightarrow> mat" where
  "minor m i j = map (\<lambda>row. take j row @ drop (Suc j) row) (take i m @ drop (Suc i) m)"

primrec det :: "nat \<Rightarrow> mat \<Rightarrow> real" where
  "det 0 m = 1"
| "det (Suc n) m =
     sum_list (map (\<lambda>j. (- 1) ^ j * (m ! 0 ! j) * det n (minor m 0 j)) [0..<Suc n])"

definition mat_inverse :: "mat \<Rightarrow> error + mat" where
  "mat_inverse m =
     (let n = length m; d = det n m
      in if \<not> is_square n m \<or> d = 0 then Inl RuntimeError
         else Inr (map (\<lambda>i. map (\<lambda>j. (- 1) ^ (i + j) * det (n - 1) (minor m j i) / d)
                                [0..<n]) [0..<n]))"

fun mapE :: "('a \<Rightarrow> error + 'b) \<Rightarrow> 'a list \<Rightarrow> error + 'b list" where
  "mapE f [] = Inr []"
| "mapE f (x # xs) = ebind (f x) (\<lambda>y. ebind (mapE f xs) (\<lambda>ys. Inr (y # ys)))"

subsection \<open>Inputs\<close>

text \<open>
  \<open>pc_range\<close> holds six scalars, indexed 0 to 5 in the source:
  \<open>(xmin, ymin, zmin, xmax, ymax, zmax)\<close>.
\<close>

record pc_range =
  pc0 :: real
  pc1 :: real
  pc2 :: real
  pc3 :: real
  pc4 :: real
  pc5 :: real

text \<open>
  \<open>cam_params\<close>, in the order the source unpacks it. The leading axes are the batch and,
  except for \<open>bda\<close>, the camera.
\<close>

record cam_params =
  rots :: "mat list list"
  trans :: "vec list list"
  intrins :: "mat list list"
  post_rots :: "mat list list"
  post_trans :: "vec list list"
  bda :: "mat list"

text \<open>
  The shapes the array runtime needs for source lines 120-151 to run: the reference points
  form a rectangular (bs, D, num_query, 3) tensor, every camera tensor has the same batch
  and camera counts, rotations are 3 by 3, translations have 3 entries, the augmentation
  and intrinsic matrices are all 3 by 3 or all 4 by 4, and the post-transforms are at least
  2 by 2 and 2 long. Inputs of other shapes are rejected with an error.
\<close>

definition num_cams :: "cam_params \<Rightarrow> nat" where
  "num_cams cam = (case trans cam of [] \<Rightarrow> 0 | t # _ \<Rightarrow> length t)"

definition num_levels :: "point3 list list list \<Rightarrow> nat" where
  "num_levels ref = (case ref of [] \<Rightarrow> 0 | r # _ \<Rightarrow> length r)"

definition num_queries :: "point3 list list list \<Rightarrow> nat" where
  "num_queries ref = (case ref of [] \<Rightarrow> 0 | r # _ \<Rightarrow> (case r of [] \<Rightarrow> 0 | l # _ \<Rightarrow> length l))"

definition per_camera :: "nat \<Rightarrow> nat \<Rightarrow> ('a \<Rightarrow> bool) \<Rightarrow> 'a list list \<Rightarrow> bool" where
  "per_camera B C ok t = (length t = B \<and> list_all (\<lambda>row. length row = C \<and> list_all ok row) t)"

definition shapes_ok :: "cam_params \<Rightarrow> point3 list list list \<Rightarrow> bool" where
  "shapes_ok cam ref =
     (let B = length ref; C = num_cams cam; D = num_levels ref; Q = num_queries ref
      in list_all (\<lambda>r. length r = D \<and> list_all (\<lambda>l. length l = Q) r) ref \<and>
         per_camera B C (is_square 3) (rots cam) \<and>
         per_camera B C (\<lambda>v. length v = 3) (trans cam) \<and>
         (per_camera B C (is_square 4) (intrins cam) \<or>
          per_camera B C (is_square 3) (intrins cam)) \<and>
         per_camera B C (\<lambda>m. 2 \<le> length m \<and> list_all (\<lambda>row. 2 \<le> length row) m)
           (post_rots cam) \<and>
         per_camera B C (\<lambda>v. 2 \<le> length v) (post_trans cam) \<and>
         length (bda cam) = B \<and>
         (list_all (is_square 4) (bda cam) \<or> list_all (is_square 3) (bda cam)))"

subsection \<open>The chain of transforms for one point\<close>

definition eps :: real where
  "eps = 1 / 100000"

text \<open>Source lines 112-117: the three axes are rescaled from [0, 1] to the range.\<close>

definition denorm_point :: "pc_range \<Rightarrow> point3 \<Rightarrow> point3" where
  "denorm_point pc p =
     (case p of (x, y, z) \<Rightarrow>
        (x * (pc3 pc - pc0 pc) + pc0 pc,
         y * (pc4 pc - pc1 pc) + pc1 pc,
         z * (pc5 pc - pc2 pc) + pc2 pc))"

definition denormalize :: "pc_range \<Rightarrow> point3 list list list \<Rightarrow> point3 list list list" where
  "denormalize pc ref = map (map (map (denorm_point pc))) ref"

text \<open>Source lines 127-133: undo the batch augmentation.\<close>

definition undo_bda :: "mat \<Rightarrow> mat \<Rightarrow> vec \<Rightarrow> vec" where
  "undo_bda bda_b inv_bda p =
     (if ncols bda_b = 4 then take 3 (matvec inv_bda (p @ [1])) else matvec inv_bda p)"

text \<open>Source lines 135-137: from the ego frame to the camera frame.\<close>

definition to_camera :: "vec \<Rightarrow> mat \<Rightarrow> vec \<Rightarrow> vec" where
  "to_camera tr inv_rot p = matvec inv_rot (map2 (-) p tr)"

text \<open>Source lines 139-143: the intrinsic projection; the third component is the depth.\<close>

definition apply_intrins :: "mat \<Rightarrow> vec \<Rightarrow> vec" where
  "apply_intrins K p = (if ncols K = 4 then matvec K (p @ [1]) else matvec K p)"

definition cam_coords :: "mat \<Rightarrow> mat \<Rightarrow> vec \<Rightarrow> mat \<Rightarrow> mat \<Rightarrow> point3 \<Rightarrow> vec" where
  "cam_coords bda_b inv_bda tr inv_rot K p =
     (case p of (x, y, z) \<Rightarrow>
        apply_intrins K (to_camera tr inv_rot (undo_bda bda_b inv_bda [x, y, z])))"

text \<open>
  The divisor of the perspective divide (source lines 146-148 and 309-311):
  \<open>torch.maximum(points_d, ones * eps)\<close>.
\<close>

definition depth_divisor :: "real \<Rightarrow> real" where
  "depth_divisor d = max d (1 * eps)"

definition post_rot_2x2 :: "mat \<Rightarrow> mat" where
  "post_rot_2x2 post_rot = map (take 2) (take 2 post_rot)"

text \<open>
  \<open>points_d = reference_points_cam[..., 2:3]\<close> is a view: it shares the storage of the
  tensor it was sliced from, so reading it yields channel 2 of that buffer as it is at the
  time of the read.
\<close>

definition view_2_3 :: "vec \<Rightarrow> real" where
  "view_2_3 buf = buf ! 2"

text \<open>
  VoxFormerEncoder.point_sampling, source lines 145-162, for one point. The division of
  line 146 builds a new tensor, so the buffer \<open>rc\<close> that \<open>points_d\<close> views is never written.
\<close>

definition project_pixel :: "int \<times> int \<Rightarrow> mat \<Rightarrow> vec \<Rightarrow> vec \<Rightarrow> (real \<times> real) \<times> bool" where
  "project_pixel final_dim post_rot post_tran rc =
     (case final_dim of (ogfH, ogfW) \<Rightarrow>
      let uv0 = map (\<lambda>c. c / depth_divisor (view_2_3 rc)) (take 2 rc);
          uv1 = matvec (post_rot_2x2 post_rot) uv0;
          uv2 = map2 (+) uv1 (take 2 post_tran);
          x = uv2 ! 0 / real_of_int ogfW;
          y = uv2 ! 1 / real_of_int ogfH;
          volume_mask = (view_2_3 rc > eps);
          volume_mask = (volume_mask \<and> x > eps \<and> x < 1.0 - eps \<and> y > eps \<and> y < 1.0 - eps)
      in ((x, y), volume_mask))"

text \<open>
  VoxFormerEncoder_DFA3D.point_sampling, source lines 308-328, for one point. Here every
  step writes into the buffer of \<open>reference_points_cam\<close> itself (\<open>buf0\<close> to \<open>buf6\<close> are its
  successive contents), and \<open>points_d\<close> is a view of that same buffer: at line 322 it reads
  channel 2 as line 319 left it.
\<close>

definition project_pixel_DFA3D ::
    "real \<times> real \<times> real \<Rightarrow> int \<times> int \<Rightarrow> mat \<Rightarrow> vec \<Rightarrow> vec \<Rightarrow> point3 \<times> bool" where
  "project_pixel_DFA3D d_bound final_dim post_rot post_tran rc =
     (case final_dim of (ogfH, ogfW) \<Rightarrow>
      case d_bound of (d_bound0, d_bound1, d_bound2) \<Rightarrow>
      let buf0 = rc;
          buf1 = map (\<lambda>c. c / depth_divisor (view_2_3 buf0)) (take 2 buf0) @ drop 2 buf0;
          buf2 = matvec (post_rot_2x2 post_rot) (take 2 buf1) @ drop 2 buf1;
          buf3 = map2 (+) (take 2 buf2) (take 2 post_tran) @ drop 2 buf2;
          buf4 = buf3[0 := buf3 ! 0 / real_of_int ogfW];
          buf5 = buf4[1 := buf4 ! 1 / real_of_int ogfH];
          buf6 = buf5[2 := (buf5 ! 2 - d_bound0) / (d_bound1 - d_bound0)];
          out = take 3 buf6;
          volume_mask = (view_2_3 buf6 > eps);
          volume_mask = (volume_mask \<and> out ! 0 > eps \<and> out ! 0 < 1.0 - eps
                           \<and> out ! 1 > eps \<and> out ! 1 < 1.0 - eps)
      in ((out ! 0, out ! 1, out ! 2), volume_mask))"

subsection \<open>The whole tensor\<close>

text \<open>
  Source lines 106-143 and 269-306 are the same text; the two methods differ in the
  per-point steps after the intrinsic projection, passed here as \<open>proj\<close>. The result pairs
  the reference points as the call leaves them (lines 112-117 write into the caller's
  tensor, before the later steps can fail) with the outcome: the projected points and the
  mask, both with axes (num_cam, bs, num_query, D). The arguments are typed: a call with
  \<open>None\<close> for \<open>reference_points\<close>, \<open>pc_range\<close> or \<open>cam_params\<close>, which fails before line 112
  has written anything, is outside the model.
\<close>

definition tensor_of :: "nat \<Rightarrow> nat \<Rightarrow> nat \<Rightarrow> nat \<Rightarrow> (nat \<Rightarrow> nat \<Rightarrow> nat \<Rightarrow> nat \<Rightarrow> 'a) \<Rightarrow>
    'a list list list list" where
  "tensor_of C B Q D f =
     map (\<lambda>c. map (\<lambda>b. map (\<lambda>q. map (\<lambda>d. f c b q d) [0..<D]) [0..<Q]) [0..<B]) [0..<C]"

definition sample_points ::
    "(mat \<Rightarrow> vec \<Rightarrow> vec \<Rightarrow> 'c \<times> bool) \<Rightarrow> point3 list list list \<Rightarrow> pc_range \<Rightarrow> cam_params \<Rightarrow>
     point3 list list list \<times> (error + ('c list list list list \<times> bool list list list list))" where
  "sample_points proj reference_points pc cam =
     (let ref = denormalize pc reference_points
      in (ref,
          if \<not> shapes_ok cam ref then Inl RuntimeError
          else
            ebind (mapE mat_inverse (bda cam)) (\<lambda>inv_bda.
            ebind (mapE (mapE mat_inverse) (rots cam)) (\<lambda>inv_rots.
            let elem = (\<lambda>c b q d.
                  proj (post_rots cam ! b ! c) (post_trans cam ! b ! c)
                    (cam_coords (bda cam ! b) (inv_bda ! b) (trans cam ! b ! c)
                       (inv_rots ! b ! c) (intrins cam ! b ! c) (ref ! b ! d ! q)));
                C = num_cams cam; B = length ref; Q = num_queries ref; D = num_levels ref
            in Inr (tensor_of C B Q D (\<lambda>c b q d. fst (elem c b q d)),
                    tensor_of C B Q D (\<lambda>c b q d. snd (elem c b q d)))))))"

definition point_sampling :: "int \<times> int \<Rightarrow> point3 list list list \<Rightarrow> pc_range \<Rightarrow> cam_params \<Rightarrow>
    point3 list list list \<times>
    (error + ((real \<times> real) list list list list \<times> bool list list list list))" where
  "point_sampling final_dim = sample_points (project_pixel final_dim)"

definition point_sampling_DFA3D ::
    "real \<times> real \<times> real \<Rightarrow> int \<times> int \<Rightarrow> point3 list list list \<Rightarrow> pc_range \<Rightarrow> cam_params \<Rightarrow>
     point3 list list list \<times> (error + (point3 list list list list \<times> bool list list list list))" where
  "point_sampling_DFA3D d_bound final_dim = sample_points (project_pixel_DFA3D d_bound final_dim)"

text \<open>
  A camera with identity rotation, intrinsics, post-rotation and augmentation and no
  translation, for a 384 by 1280 image, and the point-cloud range
  \<open>[0, -25.6, -2, 51.2, 25.6, 4.4]\<close>.
\<close>

definition identity3 :: mat where
  "identity3 = [[1, 0, 0], [0, 1, 0], [0, 0, 1]]"

definition identity_camera :: cam_params where
  "identity_camera =
     \<lparr>rots = [[identity3]], trans = [[[0, 0, 0]]], intrins = [[identity3]],
      post_rots = [[identity3]], post_trans = [[[0, 0, 0]]], bda = [identity3]\<rparr>"

definition kitti_range :: pc_range where
  "kitti_range = \<lparr>pc0 = 0, pc1 = - 25.6, pc2 = - 2, pc3 = 51.2, pc4 = 25.6, pc5 = 4.4\<rparr>"



text \<open>
  The camera-frame coordinates of one reference point of the de-normalised tensor \<open>ref\<close>,
  as point_sampling computes them before the perspective divide; channel 2 is the depth.
\<close>

definition camera_coords_at ::
    "cam_params \<Rightarrow> point3 list list list \<Rightarrow> nat \<Rightarrow> nat \<Rightarrow> nat \<Rightarrow> nat \<Rightarrow> error + vec" where
  "camera_coords_at cam ref c b q d =
     ebind (mat_inverse (bda cam ! b)) (\<lambda>inv_bda.
     ebind (mat_inverse (rots cam ! b ! c)) (\<lambda>inv_rot.
     Inr (cam_coords (bda cam ! b) inv_bda (trans cam ! b ! c) inv_rot (intrins cam ! b ! c)
            (ref ! b ! d ! q))))"

section \<open>The encoder (VoxFormerEncoder.forward)\<close>

text \<open>
  Feature tensors \<open>'t\<close> are opaque to the encoder, which only asks for the size of axis 1
  and swaps the first two axes; these two tensor operations are parameters of the model.
\<close>

record 't tensor_ops =
  size_1 :: "'t \<Rightarrow> nat"
  permute_1_0_2 :: "'t \<Rightarrow> 't"

text \<open>What one layer is called with (source lines 225-240).\<close>

record ('t, 'c, 'k) layer_call =
  lc_bev_query :: 't
  lc_key :: 't
  lc_value :: 't
  lc_args :: "'k list"
  lc_bev_pos :: "'t option"
  lc_ref_2d :: "(real \<times> real) list list list"
  lc_ref_3d :: "point3 list list list"
  lc_bev_h :: "int option"
  lc_bev_w :: "int option"
  lc_spatial_shapes :: "(int \<times> int) list option"
  lc_level_start_index :: "int list option"
  lc_reference_points_cam :: "'c list list list list"
  lc_bev_mask :: "bool list list list list"
  lc_prev_bev :: "'t option"
  lc_kwargs :: "string \<rightharpoonup> 'k"

text \<open>
  The encoder object: its layers are external functions; \<open>point_sampling\<close> is the method
  the class in use provides, already applied to \<open>self.final_dim\<close>.
\<close>

record ('t, 'c, 'k) encoder =
  layers :: "(('t, 'c, 'k) layer_call \<Rightarrow> 't) list"
  return_intermediate :: bool
  pc_range_of :: pc_range
  point_sampling_of :: "point3 list list list \<Rightarrow> pc_range \<Rightarrow> cam_params \<Rightarrow>
     point3 list list list \<times> (error + ('c list list list list \<times> bool list list list list))"

record ('t, 'k) forward_args =
  fa_bev_query :: 't
  fa_key :: 't
  fa_value :: 't
  fa_args :: "'k list"
  fa_ref_3d :: "point3 list list list"
  fa_bev_h :: "int option"
  fa_bev_w :: "int option"
  fa_bev_pos :: "'t option"
  fa_spatial_shapes :: "(int \<times> int) list option"
  fa_level_start_index :: "int list option"
  fa_cam_params :: cam_params
  fa_prev_bev :: "'t option"
  fa_kwargs :: "string \<rightharpoonup> 'k"

datatype 't encoder_output = Single 't | Stacked "'t list"

text \<open>
  The variables of the loop over the layers (source lines 224-244). \<open>es_calls\<close> is a ghost
  variable: it records, in order, what each layer was called with.
\<close>

record ('t, 'c, 'k) encoder_state =
  es_bev_query :: 't
  es_output :: 't
  es_intermediate :: "'t list"
  es_calls :: "('t, 'c, 'k) layer_call list"

fun run_layers :: "(('t, 'c, 'k) layer_call \<Rightarrow> 't) list \<Rightarrow> ('t \<Rightarrow> ('t, 'c, 'k) layer_call) \<Rightarrow> bool \<Rightarrow>
    ('t, 'c, 'k) encoder_state \<Rightarrow> ('t, 'c, 'k) encoder_state" where
  "run_layers [] mk ri st = st"
| "run_layers (layer # rest) mk ri st =
     (let call = mk (es_bev_query st);
          output = layer call
      in run_layers rest mk ri
           \<lparr>es_bev_query = output, es_output = output,
            es_intermediate = (if ri then es_intermediate st @ [output] else es_intermediate st),
            es_calls = es_calls st @ [call]\<rparr>)"

text \<open>\<open>torch.stack([ref_2d, ref_2d], 1).reshape(bs * 2, ...)\<close>: every batch entry twice.\<close>

definition hybird :: "'a list \<Rightarrow> 'a list" where
  "hybird ref_2d = concat (map (\<lambda>r. [r, r]) ref_2d)"

text \<open>\<open>torch.stack\<close> of an empty list is rejected by the runtime.\<close>

definition stack :: "'t list \<Rightarrow> error + 't encoder_output" where
  "stack ts = (if ts = [] then Inl RuntimeError else Inr (Stacked ts))"

text \<open>
  The arguments of source lines 225-240 for the running \<open>bev_query\<close>; everything else is
  the same for every layer.
\<close>

definition layer_call_of :: "'t tensor_ops \<Rightarrow> ('t, 'k) forward_args \<Rightarrow> (real \<times> real) list list list \<Rightarrow>
    point3 list list list \<Rightarrow> 'c list list list list \<Rightarrow> bool list list list list \<Rightarrow> 't \<Rightarrow>
    ('t, 'c, 'k) layer_call" where
  "layer_call_of T a hybird_ref_2d ref_3d reference_points_cam bev_mask bev_query =
     \<lparr>lc_bev_query = bev_query, lc_key = fa_key a, lc_value = fa_value a,
      lc_args = fa_args a,
      lc_bev_pos = map_option (permute_1_0_2 T) (fa_bev_pos a),
      lc_ref_2d = hybird_ref_2d, lc_ref_3d = ref_3d,
      lc_bev_h = fa_bev_h a, lc_bev_w = fa_bev_w a,
      lc_spatial_shapes = fa_spatial_shapes a,
      lc_level_start_index = fa_level_start_index a,
      lc_reference_points_cam = reference_points_cam,
      lc_bev_mask = bev_mask, lc_prev_bev = fa_prev_bev a,
      lc_kwargs = fa_kwargs a\<rparr>"

text \<open>
  VoxFormerEncoder.forward. The result is the \<open>ref_3d\<close> tensor of the caller as the call
  leaves it, the value returned or the error raised, and the calls made to the layers.
\<close>

definition forward :: "'t tensor_ops \<Rightarrow> ('t, 'c, 'k) encoder \<Rightarrow> ('t, 'k) forward_args \<Rightarrow>
    point3 list list list \<times> (error + 't encoder_output) \<times> ('t, 'c, 'k) layer_call list" where
  "forward T E a =
     (case get_reference_points 512 512 8 4 ''2d'' (int (size_1 T (fa_bev_query a))) of
        Inl e \<Rightarrow> (fa_ref_3d a, Inl e, [])
      | Inr NoneValue \<Rightarrow> (fa_ref_3d a, Inl AttributeError, [])
      | Inr (Ref3D r) \<Rightarrow> (fa_ref_3d a, Inl RuntimeError, [])
      | Inr (Ref2D ref_2d) \<Rightarrow>
         (case fa_kwargs a ''img_metas'' of
            None \<Rightarrow> (fa_ref_3d a, Inl KeyError, [])
          | Some img_metas \<Rightarrow>
             (case point_sampling_of E (fa_ref_3d a) (pc_range_of E) (fa_cam_params a) of
                (ref_3d, Inl e) \<Rightarrow> (ref_3d, Inl e, [])
              | (ref_3d, Inr (reference_points_cam, bev_mask)) \<Rightarrow>
                  let st = run_layers (layers E)
                             (layer_call_of T a (hybird ref_2d) ref_3d reference_points_cam
                                bev_mask)
                             (return_intermediate E)
                             \<lparr>es_bev_query = permute_1_0_2 T (fa_bev_query a),
                              es_output = fa_bev_query a, es_intermediate = [],
                              es_calls = []\<rparr>
                  in (ref_3d,
                      (if return_intermediate E then stack (es_intermediate st)
                       else Inr (Single (es_output st))),
                      es_calls st))))"

text \<open>The outputs of the layers run in sequence, each on the output of the one before.\<close>

fun layer_outputs :: "(('t, 'c, 'k) layer_call \<Rightarrow> 't) list \<Rightarrow> ('t \<Rightarrow> ('t, 'c, 'k) layer_call) \<Rightarrow> 't \<Rightarrow>
    't list" where
  "layer_outputs [] mk q = []"
| "layer_outputs (layer # rest) mk q = layer (mk q) # layer_outputs rest mk (layer (mk q))"

text \<open>The 2D reference points of a 512 by 512 grid for a batch of \<open>bs\<close>, doubled.\<close>

definition ref_2d_512 :: "nat \<Rightarrow> (real \<times> real) list list list" where
  "ref_2d_512 bs = hybird (replicate bs (ref_2d_grid (centers 512) (centers 512) 512 512))"

text \<open>
  A small encoder over natural numbers, used to run the model: two layers, the first
  adding 1 to the running query and the second doubling it; the tensor operations are
  trivial.
\<close>

definition example_ops :: "nat tensor_ops" where
  "example_ops = \<lparr>size_1 = (\<lambda>t. 1), permute_1_0_2 = (\<lambda>t. t)\<rparr>"

definition example_encoder :: "bool \<Rightarrow> (nat, real \<times> real, unit) encoder" where
  "example_encoder ri =
     \<lparr>layers = [\<lambda>call. lc_bev_query call + 1, \<lambda>call. 2 * lc_bev_query call],
      return_intermediate = ri, pc_range_of = kitti_range,
      point_sampling_of = point_sampling (384, 1280)\<rparr>"

definition example_forward_args :: "(nat, unit) forward_args" where
  "example_forward_args =
     \<lparr>fa_bev_query = 3, fa_key = 0, fa_value = 0, fa_args = [],
      fa_ref_3d = [[[(0.5, 0.75, 0.5)]]], fa_bev_h = Some 128, fa_bev_w = Some 128,
      fa_bev_pos = None, fa_spatial_shapes = None, fa_level_start_index = None,
      fa_cam_params = identity_camera, fa_prev_bev = None,
      fa_kwargs = [''img_metas'' \<mapsto> ()]\<rparr>"


section \<open>Basic facts\<close>

lemma ebind_simps: "ebind (Inl e) f = Inl e" "ebind (Inr x) f = f x"
  by (simp_all add: ebind_def)

section \<open>Properties of the reference points\<close>

lemma grid_length:
  "length (concat (map (\<lambda>y. map (f y) xs) ys)) = length ys * length xs"
  by (induction ys) simp_all

lemma grid_nth:
  "r < length ys \<Longrightarrow> c < length xs \<Longrightarrow>
   concat (map (\<lambda>y. map (f y) xs) ys) ! (r * length xs + c) = f (ys ! r) (xs ! c)"
proof (induction ys arbitrary: r)
  case Nil
  then show ?case by simp
next
  case (Cons y ys)
  show ?case
  proof (cases r)
    case 0
    with Cons.prems show ?thesis by (simp add: nth_append)
  next
    case (Suc r')
    with Cons.prems have "r' < length ys" by simp
    from Cons.IH [OF this Cons.prems(2)] Suc show ?thesis
      by (simp add: nth_append)
  qed
qed

text \<open>
  With as many steps as the interval \<open>[0.5, n - 0.5]\<close> is long, \<open>linspace\<close> yields the cell
  centres \<open>i + 0.5\<close>; this is the case of the \<open>xs\<close> and \<open>ys\<close> of both branches.
\<close>

lemma linspace_centers:
  "0 \<le> n \<Longrightarrow> linspace 0.5 (real_of_int n - 0.5) n = Inr (centers n)"
proof -
  assume n: "0 \<le> n"
  show ?thesis
  proof (cases "n = 1")
    case True
    then show ?thesis by (simp add: linspace_def centers_def)
  next
    case False
    with n have "real_of_int n - 1 \<noteq> 0" by simp
    then have "(real_of_int n - 0.5 - 0.5) / (real_of_int n - 1) = 1" by simp
    with n False show ?thesis by (simp add: linspace_def centers_def)
  qed
qed

text \<open>
  The height levels are spread over \<open>[0.5, Z - 0.5]\<close> whatever their number: the step is
  \<open>(Z - 1) / (n - 1)\<close>, which is 1 only when \<open>n = Z\<close>.
\<close>

lemma linspace_levels:
  "0 \<le> n \<Longrightarrow> linspace 0.5 (Z - 0.5) n = Inr (levels Z n)"
  by (simp add: linspace_def levels_def)

lemma get_ref_3d_eq:
  assumes "0 \<le> H" "0 \<le> W" "0 \<le> n" "0 \<le> bs"
  shows "get_reference_points H W Z n ''3d'' bs =
     Inr (Ref3D (replicate (nat bs) (ref_3d_grid (levels Z n) (centers H) (centers W) H W Z)))"
  unfolding get_reference_points_def linspace_centers [OF assms(1)] linspace_centers [OF assms(2)]
    linspace_levels [OF assms(3)]
  using assms(4) by (simp add: ebind_simps repeat_batch_def)

lemma get_ref_2d_eq:
  assumes "0 \<le> H" "0 \<le> W" "0 \<le> bs"
  shows "get_reference_points H W Z n ''2d'' bs =
     Inr (Ref2D (replicate (nat bs) (ref_2d_grid (centers H) (centers W) H W)))"
  unfolding get_reference_points_def linspace_centers [OF assms(1)] linspace_centers [OF assms(2)]
  using assms(3) by (simp add: ebind_simps repeat_batch_def)

lemma ref_3d_grid_nth:
  assumes "l < length zs" "r < length ys" "c < length xs"
  shows "ref_3d_grid zs ys xs H W Z ! l ! (r * length xs + c) =
     (xs ! c / real_of_int W, ys ! r / real_of_int H, zs ! l / Z)"
  using assms by (simp add: ref_3d_grid_def grid_nth)

lemma ref_3d_grid_length:
  "length (ref_3d_grid zs ys xs H W Z) = length zs"
  "l < length zs \<Longrightarrow> length (ref_3d_grid zs ys xs H W Z ! l) = length ys * length xs"
  by (simp_all add: ref_3d_grid_def grid_length)

lemma centers_2: "centers 2 = [0.5, 1.5]"
  by (simp add: centers_def upt_rec)

lemma levels_1: "levels Z 1 = [0.5]"
  by (simp add: levels_def)

lemma get_ref_3d_2x2:
  assumes "0 \<le> bs"
  shows "get_reference_points 2 2 Z 1 ''3d'' bs =
       Inr (Ref3D (replicate (nat bs)
         [[(0.25, 0.25, 0.5 / Z), (0.75, 0.25, 0.5 / Z), (0.25, 0.75, 0.5 / Z),
           (0.75, 0.75, 0.5 / Z)]]))"
proof -
  have "get_reference_points 2 2 Z 1 ''3d'' bs =
      Inr (Ref3D (replicate (nat bs) (ref_3d_grid (levels Z 1) (centers 2) (centers 2) 2 2 Z)))"
    by (rule get_ref_3d_eq) (simp_all add: assms)
  also have "ref_3d_grid (levels Z 1) (centers 2) (centers 2) 2 2 Z =
      [[(0.25, 0.25, 0.5 / Z), (0.75, 0.25, 0.5 / Z), (0.25, 0.75, 0.5 / Z),
        (0.75, 0.75, 0.5 / Z)]]"
    unfolding centers_2 levels_1 by (simp add: ref_3d_grid_def)
  finally show ?thesis .
qed

text \<open>
  Claim C3, as stated, fails: with the default \<open>Z = 8\<close> and four points per pillar, on a
  grid of one cell, the second height level is \<open>(0.5 + 7/3) / 8 = 17/48\<close>, not
  \<open>(1 + 0.5) / 8\<close>.
\<close>

theorem get_reference_points_3d_level_counterexample:
  "get_reference_points 1 1 8 4 ''3d'' 1 =
     Inr (Ref3D [[[(1/2, 1/2, 1/16)], [(1/2, 1/2, 17/48)], [(1/2, 1/2, 31/48)],
                  [(1/2, 1/2, 15/16)]]]) \<and>
   (1/2, 1/2, 17/48) \<noteq> ((0 + 0.5) / 1, (0 + 0.5) / 1, (1 + 0.5) / (8::real))"
proof
  show "get_reference_points 1 1 8 4 ''3d'' 1 =
     Inr (Ref3D [[[(1/2, 1/2, 1/16)], [(1/2, 1/2, 17/48)], [(1/2, 1/2, 31/48)],
                  [(1/2, 1/2, 15/16)]]])"
    by (simp add: get_reference_points_def linspace_def ebind_simps repeat_batch_def
        ref_3d_grid_def upt_rec)
next
  show "(1/2, 1/2, 17/48) \<noteq> ((0 + 0.5) / 1, (0 + 0.5) / 1, (1 + 0.5) / (8::real))"
    by simp
qed

text \<open>
  Claim C3, amended: for non-negative sizes and \<open>Z \<noteq> 0\<close>, get_reference_points with
  \<open>dim = '3d'\<close> returns \<open>bs\<close> copies of \<open>num_points_in_pillar\<close> levels of \<open>H * W\<close> points; the
  point of level \<open>l\<close>, row \<open>r\<close> and column \<open>c\<close> sits at index \<open>r * W + c\<close> and is
  \<open>((c + 0.5) / W, (r + 0.5) / H, z / Z)\<close> where \<open>z\<close> is the \<open>l\<close>-th of
  \<open>num_points_in_pillar\<close> values evenly spaced from \<open>0.5\<close> to \<open>Z - 0.5\<close>, that is
  \<open>0.5 + l * (Z - 1) / (num_points_in_pillar - 1)\<close>, and \<open>0.5\<close> for a single level. In
  particular, one level on a 2 by 2 grid gives exactly the four points
  \<open>(0.25, 0.25)\<close>, \<open>(0.75, 0.25)\<close>, \<open>(0.25, 0.75)\<close>, \<open>(0.75, 0.75)\<close> at height \<open>0.5 / Z\<close>.
\<close>

theorem get_reference_points_3d_grid:
  assumes "0 \<le> H" "0 \<le> W" "0 \<le> n" "0 \<le> bs" "Z \<noteq> 0"
  shows "(\<exists>pts. get_reference_points H W Z n ''3d'' bs = Inr (Ref3D pts) \<and> length pts = nat bs \<and>
     (\<forall>b < nat bs. length (pts ! b) = nat n \<and>
        (\<forall>l < nat n. length (pts ! b ! l) = nat H * nat W \<and>
          (\<forall>r < nat H. \<forall>c < nat W.
             pts ! b ! l ! (r * nat W + c) =
               ((real c + 0.5) / real_of_int W, (real r + 0.5) / real_of_int H,
                (if n = 1 then 0.5 else 0.5 + real l * ((Z - 1) / (real_of_int n - 1))) / Z))))) \<and>
     get_reference_points 2 2 Z 1 ''3d'' bs =
       Inr (Ref3D (replicate (nat bs)
         [[(0.25, 0.25, 0.5 / Z), (0.75, 0.25, 0.5 / Z), (0.25, 0.75, 0.5 / Z),
           (0.75, 0.75, 0.5 / Z)]]))"
proof
  let ?g = "ref_3d_grid (levels Z n) (centers H) (centers W) H W Z"
  let ?P = "\<lambda>pts. get_reference_points H W Z n ''3d'' bs = Inr (Ref3D pts) \<and> length pts = nat bs \<and>
     (\<forall>b < nat bs. length (pts ! b) = nat n \<and>
        (\<forall>l < nat n. length (pts ! b ! l) = nat H * nat W \<and>
          (\<forall>r < nat H. \<forall>c < nat W.
             pts ! b ! l ! (r * nat W + c) =
               ((real c + 0.5) / real_of_int W, (real r + 0.5) / real_of_int H,
                (if n = 1 then 0.5 else 0.5 + real l * ((Z - 1) / (real_of_int n - 1))) / Z))))"
  have len: "length (levels Z n) = nat n" "length (centers H) = nat H" "length (centers W) = nat W"
    by (simp_all add: levels_def centers_def)
  have pt: "?g ! l ! (r * nat W + c) =
      ((real c + 0.5) / real_of_int W, (real r + 0.5) / real_of_int H,
       (if n = 1 then 0.5 else 0.5 + real l * ((Z - 1) / (real_of_int n - 1))) / Z)"
    if "l < nat n" "r < nat H" "c < nat W" for l r c
  proof -
    have "?g ! l ! (r * length (centers W) + c) =
        (centers W ! c / real_of_int W, centers H ! r / real_of_int H, levels Z n ! l / Z)"
      using that by (intro ref_3d_grid_nth) (simp_all add: len)
    moreover have "centers W ! c = real c + 0.5" "centers H ! r = real r + 0.5"
      "levels Z n ! l = (if n = 1 then 0.5 else 0.5 + real l * ((Z - 1) / (real_of_int n - 1)))"
      using that by (simp_all add: centers_def levels_def)
    ultimately show ?thesis by (simp only: len)
  qed
  have main: "?P (replicate (nat bs) ?g)"
  proof (intro conjI)
    show "get_reference_points H W Z n ''3d'' bs = Inr (Ref3D (replicate (nat bs) ?g))"
      by (rule get_ref_3d_eq [OF assms(1-4)])
    show "length (replicate (nat bs) ?g) = nat bs"
      by simp
    show "\<forall>b < nat bs. length (replicate (nat bs) ?g ! b) = nat n \<and>
        (\<forall>l < nat n. length (replicate (nat bs) ?g ! b ! l) = nat H * nat W \<and>
          (\<forall>r < nat H. \<forall>c < nat W.
             replicate (nat bs) ?g ! b ! l ! (r * nat W + c) =
               ((real c + 0.5) / real_of_int W, (real r + 0.5) / real_of_int H,
                (if n = 1 then 0.5 else 0.5 + real l * ((Z - 1) / (real_of_int n - 1))) / Z)))"
      using pt by (simp add: ref_3d_grid_length len)
  qed
  show "\<exists>pts. ?P pts"
    by (rule exI [of ?P "replicate (nat bs) ?g", OF main])
next
  show "get_reference_points 2 2 Z 1 ''3d'' bs =
       Inr (Ref3D (replicate (nat bs)
         [[(0.25, 0.25, 0.5 / Z), (0.75, 0.25, 0.5 / Z), (0.25, 0.75, 0.5 / Z),
           (0.75, 0.75, 0.5 / Z)]]))"
    by (rule get_ref_3d_2x2 [OF assms(4)])
qed

theorem get_reference_points_3d_grid_witness:
  "(0::int) \<le> 1 \<and> (0::int) \<le> 4 \<and> (8::real) \<noteq> 0 \<and>
   get_reference_points 2 2 8 1 ''3d'' 1 =
     Inr (Ref3D [[[(1/4, 1/4, 1/16), (3/4, 1/4, 1/16), (1/4, 3/4, 1/16), (3/4, 3/4, 1/16)]]])"
  using get_reference_points_3d_grid [of 1 1 4 1 8] by simp

text \<open>
  Claim C9: called with a \<open>dim\<close> that is neither \<open>'3d'\<close> nor \<open>'2d'\<close>, get_reference_points
  falls through both branches and returns \<open>None\<close>; no error is raised, whatever the other
  arguments are.
\<close>

theorem get_reference_points_other_dim:
  "dim_arg \<noteq> ''3d'' \<Longrightarrow> dim_arg \<noteq> ''2d'' \<Longrightarrow>
   get_reference_points H W Z n dim_arg bs = Inr NoneValue"
  by (simp add: get_reference_points_def)

theorem get_reference_points_other_dim_witness:
  "''bev'' \<noteq> ''3d'' \<and> ''bev'' \<noteq> ''2d'' \<and>
   get_reference_points (- 1) 2 8 4 ''bev'' 1 = Inr NoneValue"
  using get_reference_points_other_dim [of "''bev''" "- 1" 2 8 4 1] by simp

section \<open>Properties of the encoder layer\<close>

lemma layer_step_unknown:
  "\<not> known_tag layer \<Longrightarrow> layer_step L a masks layer st = Inr st"
  by (simp add: layer_step_def known_tag_def)

lemma run_operations_filter:
  "run_operations L a masks (filter known_tag ops) st = run_operations L a masks ops st"
proof (induction ops arbitrary: st)
  case Nil
  show ?case by simp
next
  case (Cons layer ops)
  have "run_operations L a masks (filter known_tag ops) = run_operations L a masks ops"
    using Cons.IH by (rule ext)
  then show ?case
    by (simp add: layer_step_unknown ebind_simps)
qed

lemma layer_step_order_irrelevant:
  "layer_step (L\<lparr>operation_order := ops'\<rparr>) a masks layer st = layer_step L a masks layer st"
  by (simp add: layer_step_def residual_def)

lemma run_operations_order_irrelevant:
  "run_operations (L\<lparr>operation_order := ops'\<rparr>) a masks ops st = run_operations L a masks ops st"
proof (induction ops arbitrary: st)
  case Nil
  show ?case by simp
next
  case (Cons layer ops)
  have "run_operations (L\<lparr>operation_order := ops'\<rparr>) a masks ops = run_operations L a masks ops"
    using Cons.IH by (rule ext)
  then show ?case
    by (simp add: layer_step_order_irrelevant)
qed


text \<open>
  Claim C10: a tag of \<open>operation_order\<close> other than \<open>self_attn\<close>, \<open>norm\<close>, \<open>cross_attn\<close>
  and \<open>ffn\<close> matches no branch: the iteration raises nothing and leaves \<open>query\<close>,
  \<open>identity\<close> and the three indices as they were. Hence the layer returns what it returns
  on the recognised tags alone.
\<close>

theorem layer_forward_unknown_tag:
  "(\<not> known_tag layer \<longrightarrow> layer_step L a masks layer st = Inr st) \<and>
   layer_forward L q attn_masks a =
     layer_forward (L\<lparr>operation_order := filter known_tag (operation_order L)\<rparr>) q attn_masks a"
  by (simp add: layer_step_unknown layer_forward_def run_operations_filter
      run_operations_order_irrelevant)

lemma example_layer_forward:
  "layer_forward example_layer 3 MasksNone example_layer_args = ([], Inr 8)"
  by (simp add: layer_forward_def example_layer_def layer_step_def ebind_simps index_list_def
      residual_def)

theorem layer_forward_unknown_tag_witness:
  "\<not> known_tag ''dropout'' \<and>
   layer_step example_layer example_layer_args []  ''dropout''
     \<lparr>query = 4, identity = 3, attn_index = 0, norm_index = 1, ffn_index = 0\<rparr> =
     Inr \<lparr>query = 4, identity = 3, attn_index = 0, norm_index = 1, ffn_index = 0\<rparr> \<and>
   layer_forward (example_layer\<lparr>operation_order := [''norm'', ''ffn'']\<rparr>) 3 MasksNone
       example_layer_args = ([], Inr 8)"
proof -
  have tag: "\<not> known_tag ''dropout''"
    by (simp add: known_tag_def)
  have ops: "filter known_tag (operation_order example_layer) = [''norm'', ''ffn'']"
    by (simp add: known_tag_def example_layer_def)
  note inst = layer_forward_unknown_tag [of "''dropout''" example_layer example_layer_args "[]"
      "\<lparr>query = 4, identity = 3, attn_index = 0, norm_index = 1, ffn_index = 0\<rparr>"
      3 MasksNone]
  from inst tag have "layer_step example_layer example_layer_args []  ''dropout''
     \<lparr>query = 4, identity = 3, attn_index = 0, norm_index = 1, ffn_index = 0\<rparr> =
     Inr \<lparr>query = 4, identity = 3, attn_index = 0, norm_index = 1, ffn_index = 0\<rparr>"
    by (simp only: simp_thms)
  moreover from inst have "layer_forward example_layer 3 MasksNone example_layer_args =
     layer_forward (example_layer\<lparr>operation_order := [''norm'', ''ffn'']\<rparr>) 3 MasksNone
       example_layer_args"
    unfolding ops by (rule conjunct2)
  then have "layer_forward (example_layer\<lparr>operation_order := [''norm'', ''ffn'']\<rparr>) 3 MasksNone
       example_layer_args = ([], Inr 8)"
    by (simp only: example_layer_forward)
  ultimately show ?thesis using tag by (intro conjI)
qed

section \<open>Properties of the camera projection\<close>

lemma ebind_Inr_iff: "ebind m f = Inr y \<longleftrightarrow> (\<exists>x. m = Inr x \<and> f x = Inr y)"
  by (cases m) (simp_all add: ebind_def)

lemma mapE_Inr:
  "mapE f xs = Inr ys \<Longrightarrow> length ys = length xs \<and> (\<forall>i < length xs. f (xs ! i) = Inr (ys ! i))"
proof (induction xs arbitrary: ys)
  case Nil
  then show ?case by simp
next
  case (Cons x xs)
  from Cons.prems obtain y ys' where y: "f x = Inr y" and ys': "mapE f xs = Inr ys'"
    and ys: "ys = y # ys'"
    by (auto simp: ebind_Inr_iff)
  from Cons.IH [OF ys'] have "length ys' = length xs" "\<forall>i < length xs. f (xs ! i) = Inr (ys' ! i)"
    by simp_all
  with y ys show ?case
    by (auto simp: nth_Cons split: nat.splits)
qed

lemma tensor_of_nth:
  "c < C \<Longrightarrow> b < B \<Longrightarrow> q < Q \<Longrightarrow> d < D \<Longrightarrow> tensor_of C B Q D f ! c ! b ! q ! d = f c b q d"
  by (simp add: tensor_of_def)

text \<open>What a successful call of either projector has computed.\<close>

lemma sample_points_Inr:
  assumes "sample_points proj reference_points pc cam = (ref, Inr (pts, vmask))"
  shows "ref = denormalize pc reference_points \<and> shapes_ok cam ref \<and>
    (\<exists>inv_bda inv_rots.
       mapE mat_inverse (bda cam) = Inr inv_bda \<and>
       mapE (mapE mat_inverse) (rots cam) = Inr inv_rots \<and>
       pts = tensor_of (num_cams cam) (length ref) (num_queries ref) (num_levels ref)
         (\<lambda>c b q d. fst (proj (post_rots cam ! b ! c) (post_trans cam ! b ! c)
            (cam_coords (bda cam ! b) (inv_bda ! b) (trans cam ! b ! c)
               (inv_rots ! b ! c) (intrins cam ! b ! c) (ref ! b ! d ! q)))) \<and>
       vmask = tensor_of (num_cams cam) (length ref) (num_queries ref) (num_levels ref)
         (\<lambda>c b q d. snd (proj (post_rots cam ! b ! c) (post_trans cam ! b ! c)
            (cam_coords (bda cam ! b) (inv_bda ! b) (trans cam ! b ! c)
               (inv_rots ! b ! c) (intrins cam ! b ! c) (ref ! b ! d ! q)))))"
  using assms
  by (auto simp: sample_points_def Let_def ebind_Inr_iff split: if_splits)

lemma sample_points_fst: "fst (sample_points proj reference_points pc cam) = denormalize pc reference_points"
  by (simp add: sample_points_def Let_def)

lemma per_camera_nth:
  "per_camera B C ok t \<Longrightarrow> b < B \<Longrightarrow> c < C \<Longrightarrow> b < length t \<and> c < length (t ! b) \<and> ok (t ! b ! c)"
  by (auto simp: per_camera_def list_all_length)

lemma camera_coords_at_eq:
  assumes "shapes_ok cam ref" "mapE mat_inverse (bda cam) = Inr inv_bda"
    "mapE (mapE mat_inverse) (rots cam) = Inr inv_rots" "c < num_cams cam" "b < length ref"
  shows "camera_coords_at cam ref c b q d =
     Inr (cam_coords (bda cam ! b) (inv_bda ! b) (trans cam ! b ! c)
               (inv_rots ! b ! c) (intrins cam ! b ! c) (ref ! b ! d ! q))"
proof -
  from assms(1) have lb: "length (bda cam) = length ref"
    and pr: "per_camera (length ref) (num_cams cam) (is_square 3) (rots cam)"
    by (simp_all add: shapes_ok_def Let_def)
  from per_camera_nth [OF pr assms(5,4)]
  have br: "b < length (rots cam)" and cr: "c < length (rots cam ! b)" by simp_all
  from mapE_Inr [OF assms(2)] assms(5) lb have 1: "mat_inverse (bda cam ! b) = Inr (inv_bda ! b)"
    by simp
  from mapE_Inr [OF assms(3)] br have "mapE mat_inverse (rots cam ! b) = Inr (inv_rots ! b)"
    by simp
  from mapE_Inr [OF this] cr have 2: "mat_inverse (rots cam ! b ! c) = Inr (inv_rots ! b ! c)"
    by simp
  show ?thesis
    by (simp add: camera_coords_at_def 1 2 ebind_simps)
qed

lemma eps_pos: "0 < eps"
  by (simp add: eps_def)

subsection \<open>Running the projectors on the identity camera\<close>

lemma mat_inverse_identity3: "mat_inverse identity3 = Inr identity3"
  by (simp add: mat_inverse_def identity3_def is_square_def minor_def upt_rec)

lemma identity_camera_fields:
  "bda identity_camera = [identity3]" "rots identity_camera = [[identity3]]"
  "trans identity_camera = [[[0, 0, 0]]]" "intrins identity_camera = [[identity3]]"
  "post_rots identity_camera = [[identity3]]" "post_trans identity_camera = [[[0, 0, 0]]]"
  by (simp_all add: identity_camera_def)

lemma identity_camera_inverses:
  "mapE mat_inverse (bda identity_camera) = Inr [identity3]"
  "mapE (mapE mat_inverse) (rots identity_camera) = Inr [[identity3]]"
  by (simp_all add: identity_camera_fields mat_inverse_identity3 ebind_simps)

lemma shapes_ok_identity_camera: "shapes_ok identity_camera [[[p]]]"
  by (simp add: shapes_ok_def identity_camera_def identity3_def per_camera_def is_square_def
      num_cams_def num_levels_def num_queries_def)

lemma cam_coords_identity:
  "cam_coords identity3 identity3 [0, 0, 0] identity3 identity3 (x, y, z) = [x, y, z]"
  by (simp add: cam_coords_def apply_intrins_def to_camera_def undo_bda_def matvec_def
      identity3_def ncols_def)

lemma camera_coords_at_identity:
  "camera_coords_at identity_camera [[[(x, y, z)]]] 0 0 0 0 = Inr [x, y, z]"
  by (simp add: camera_coords_at_def identity_camera_fields mat_inverse_identity3 ebind_simps
      cam_coords_identity)

lemma sample_points_identity_camera:
  "sample_points proj [[[p]]] pc identity_camera =
     ([[[denorm_point pc p]]],
      Inr ([[[[fst (proj identity3 [0, 0, 0] (cam_coords identity3 identity3 [0, 0, 0] identity3
                 identity3 (denorm_point pc p)))]]]],
           [[[[snd (proj identity3 [0, 0, 0] (cam_coords identity3 identity3 [0, 0, 0] identity3
                 identity3 (denorm_point pc p)))]]]]))"
proof -
  have d: "denormalize pc [[[p]]] = [[[denorm_point pc p]]]"
    by (simp add: denormalize_def)
  have n: "num_cams identity_camera = 1" "num_levels [[[denorm_point pc p]]] = 1"
    "num_queries [[[denorm_point pc p]]] = 1"
    by (simp_all add: num_cams_def num_levels_def num_queries_def identity_camera_def)
  have t: "tensor_of (Suc 0) (Suc 0) (Suc 0) (Suc 0) f = [[[[f 0 0 0 0]]]]"
    for f :: "nat \<Rightarrow> nat \<Rightarrow> nat \<Rightarrow> nat \<Rightarrow> 'b"
    by (simp add: tensor_of_def)
  show ?thesis
    unfolding sample_points_def d Let_def identity_camera_inverses n
    by (simp add: shapes_ok_identity_camera ebind_simps t identity_camera_fields)
qed

lemma denorm_point_front: "denorm_point kitti_range (0.5, 0.75, 0.5) = (128 / 5, 64 / 5, 6 / 5)"
  by (simp add: denorm_point_def kitti_range_def)

lemma denorm_point_behind: "denorm_point kitti_range (0.5, 0.75, 0.25) = (128 / 5, 64 / 5, - (2 / 5))"
  by (simp add: denorm_point_def kitti_range_def)

lemma project_pixel_front:
  "project_pixel (384, 1280) identity3 [0, 0, 0] [128 / 5, 64 / 5, 6 / 5] = ((1 / 60, 1 / 36), True)"
  by (simp add: project_pixel_def Let_def view_2_3_def depth_divisor_def eps_def post_rot_2x2_def
      identity3_def matvec_def)

lemma project_pixel_behind:
  "project_pixel (384, 1280) identity3 [0, 0, 0] [128 / 5, 64 / 5, - (2 / 5)] =
     ((2000, 10000 / 3), False)"
  by (simp add: project_pixel_def Let_def view_2_3_def depth_divisor_def eps_def post_rot_2x2_def
      identity3_def matvec_def)

lemma project_pixel_DFA3D_front:
  "project_pixel_DFA3D (2, 58, 0.5) (384, 1280) identity3 [0, 0, 0] [128 / 5, 64 / 5, 6 / 5] =
     ((1 / 60, 1 / 36, - (1 / 70)), False)"
  by (simp add: project_pixel_DFA3D_def Let_def view_2_3_def depth_divisor_def eps_def
      post_rot_2x2_def identity3_def matvec_def)

lemma point_sampling_front:
  "point_sampling (384, 1280) [[[(0.5, 0.75, 0.5)]]] kitti_range identity_camera =
     ([[[(128 / 5, 64 / 5, 6 / 5)]]], Inr ([[[[(1 / 60, 1 / 36)]]]], [[[[True]]]]))"
  unfolding point_sampling_def sample_points_identity_camera denorm_point_front
    cam_coords_identity project_pixel_front
  by simp

lemma point_sampling_behind:
  "point_sampling (384, 1280) [[[(0.5, 0.75, 0.25)]]] kitti_range identity_camera =
     ([[[(128 / 5, 64 / 5, - (2 / 5))]]], Inr ([[[[(2000, 10000 / 3)]]]], [[[[False]]]]))"
  unfolding point_sampling_def sample_points_identity_camera denorm_point_behind
    cam_coords_identity project_pixel_behind
  by simp

lemma point_sampling_DFA3D_front:
  "point_sampling_DFA3D (2, 58, 0.5) (384, 1280) [[[(0.5, 0.75, 0.5)]]] kitti_range identity_camera =
     ([[[(128 / 5, 64 / 5, 6 / 5)]]], Inr ([[[[(1 / 60, 1 / 36, - (1 / 70))]]]], [[[[False]]]]))"
  unfolding point_sampling_DFA3D_def sample_points_identity_camera denorm_point_front
    cam_coords_identity project_pixel_DFA3D_front
  by simp

subsection \<open>The visibility mask\<close>

text \<open>
  Claim C1: whenever VoxFormerEncoder.point_sampling returns, the mask entry of camera
  \<open>c\<close>, batch item \<open>b\<close>, query \<open>q\<close> and level \<open>d\<close> is True exactly when the camera-frame
  depth of the point exceeds \<open>eps\<close> and both returned pixel coordinates lie strictly
  between \<open>eps\<close> and \<open>1 - eps\<close>. So it is False when the depth is at most \<open>eps\<close>, whatever
  the pixel coordinates, and False when a pixel coordinate is at most 0 or at least 1.
\<close>

theorem point_sampling_mask_iff:
  assumes "point_sampling final_dim reference_points pc cam = (ref, Inr (pts, vmask))"
    and "c < num_cams cam" "b < length ref" "q < num_queries ref" "d < num_levels ref"
  shows "\<exists>rc x y. camera_coords_at cam ref c b q d = Inr rc \<and> pts ! c ! b ! q ! d = (x, y) \<and>
     (vmask ! c ! b ! q ! d \<longleftrightarrow>
        view_2_3 rc > eps \<and> eps < x \<and> x < 1 - eps \<and> eps < y \<and> y < 1 - eps) \<and>
     (view_2_3 rc \<le> eps \<longrightarrow> \<not> vmask ! c ! b ! q ! d) \<and>
     (x \<le> 0 \<or> 1 \<le> x \<or> y \<le> 0 \<or> 1 \<le> y \<longrightarrow> \<not> vmask ! c ! b ! q ! d)"
proof -
  from sample_points_Inr [OF assms(1) [unfolded point_sampling_def]]
  obtain inv_bda inv_rots where ok: "shapes_ok cam ref"
    and ib: "mapE mat_inverse (bda cam) = Inr inv_bda"
    and ir: "mapE (mapE mat_inverse) (rots cam) = Inr inv_rots"
    and pts: "pts = tensor_of (num_cams cam) (length ref) (num_queries ref) (num_levels ref)
         (\<lambda>c b q d. fst (project_pixel final_dim (post_rots cam ! b ! c) (post_trans cam ! b ! c)
            (cam_coords (bda cam ! b) (inv_bda ! b) (trans cam ! b ! c)
               (inv_rots ! b ! c) (intrins cam ! b ! c) (ref ! b ! d ! q))))"
    and vmask: "vmask = tensor_of (num_cams cam) (length ref) (num_queries ref) (num_levels ref)
         (\<lambda>c b q d. snd (project_pixel final_dim (post_rots cam ! b ! c) (post_trans cam ! b ! c)
            (cam_coords (bda cam ! b) (inv_bda ! b) (trans cam ! b ! c)
               (inv_rots ! b ! c) (intrins cam ! b ! c) (ref ! b ! d ! q))))"
    by blast
  let ?rc = "cam_coords (bda cam ! b) (inv_bda ! b) (trans cam ! b ! c)
               (inv_rots ! b ! c) (intrins cam ! b ! c) (ref ! b ! d ! q)"
  let ?p = "project_pixel final_dim (post_rots cam ! b ! c) (post_trans cam ! b ! c) ?rc"
  have rc: "camera_coords_at cam ref c b q d = Inr ?rc"
    by (rule camera_coords_at_eq [OF ok ib ir assms(2,3)])
  have p: "pts ! c ! b ! q ! d = fst ?p"
    unfolding pts by (simp add: tensor_of_nth assms(2-5))
  have m: "vmask ! c ! b ! q ! d = snd ?p"
    unfolding vmask by (simp add: tensor_of_nth assms(2-5))
  have iff: "snd ?p \<longleftrightarrow> view_2_3 ?rc > eps \<and> eps < fst (fst ?p) \<and> fst (fst ?p) < 1 - eps \<and>
      eps < snd (fst ?p) \<and> snd (fst ?p) < 1 - eps"
    by (cases final_dim) (simp add: project_pixel_def Let_def)
  show ?thesis
  proof (intro exI conjI)
    show "camera_coords_at cam ref c b q d = Inr ?rc" by (rule rc)
    show "pts ! c ! b ! q ! d = (fst (fst ?p), snd (fst ?p))" by (simp add: p)
    show "vmask ! c ! b ! q ! d \<longleftrightarrow> view_2_3 ?rc > eps \<and> eps < fst (fst ?p) \<and>
        fst (fst ?p) < 1 - eps \<and> eps < snd (fst ?p) \<and> snd (fst ?p) < 1 - eps"
      unfolding m by (rule iff)
    show "view_2_3 ?rc \<le> eps \<longrightarrow> \<not> vmask ! c ! b ! q ! d"
      unfolding m iff by simp
    show "fst (fst ?p) \<le> 0 \<or> 1 \<le> fst (fst ?p) \<or> snd (fst ?p) \<le> 0 \<or> 1 \<le> snd (fst ?p) \<longrightarrow>
        \<not> vmask ! c ! b ! q ! d"
      unfolding m iff using eps_pos by auto
  qed
qed

theorem point_sampling_mask_iff_witness:
  "point_sampling (384, 1280) [[[(0.5, 0.75, 0.5)]]] kitti_range identity_camera =
     ([[[(128 / 5, 64 / 5, 6 / 5)]]], Inr ([[[[(1 / 60, 1 / 36)]]]], [[[[True]]]])) \<and>
   0 < num_cams identity_camera \<and>
   (0::nat) < length [[[(128 / 5 :: real, 64 / 5 :: real, 6 / 5 :: real)]]] \<and>
   0 < num_queries [[[(128 / 5, 64 / 5, 6 / 5)]]] \<and>
   0 < num_levels [[[(128 / 5, 64 / 5, 6 / 5)]]] \<and>
   camera_coords_at identity_camera [[[(128 / 5, 64 / 5, 6 / 5)]]] 0 0 0 0 =
     Inr [128 / 5, 64 / 5, 6 / 5] \<and>
   eps < 6 / 5 \<and> eps < 1 / 60 \<and> 1 / 60 < 1 - eps \<and> eps < 1 / 36 \<and> 1 / 36 < 1 - eps"
proof -
  have n: "0 < num_cams identity_camera" "(0::nat) < length [[[(128 / 5 :: real, 64 / 5 :: real, 6 / 5 :: real)]]]"
    "0 < num_queries [[[(128 / 5, 64 / 5, 6 / 5)]]]" "0 < num_levels [[[(128 / 5, 64 / 5, 6 / 5)]]]"
    by (simp_all add: num_cams_def num_queries_def num_levels_def identity_camera_def)
  from point_sampling_mask_iff [OF point_sampling_front n]
  obtain rc x y where rc: "camera_coords_at identity_camera [[[(128 / 5, 64 / 5, 6 / 5)]]] 0 0 0 0 = Inr rc"
    and xy: "[[[[(1 / 60 :: real, 1 / 36 :: real)]]]] ! 0 ! 0 ! 0 ! 0 = (x, y)"
    and iff: "[[[[True]]]] ! 0 ! 0 ! 0 ! 0 \<longleftrightarrow>
        view_2_3 rc > eps \<and> eps < x \<and> x < 1 - eps \<and> eps < y \<and> y < 1 - eps"
    by blast
  from rc have rc': "rc = [128 / 5, 64 / 5, 6 / 5]"
    by (simp add: camera_coords_at_identity)
  from xy have x: "x = 1 / 60" and y: "y = 1 / 36" by simp_all
  from iff have "eps < 6 / 5 \<and> eps < 1 / 60 \<and> 1 / 60 < 1 - eps \<and> eps < 1 / 36 \<and> 1 / 36 < 1 - eps"
    unfolding rc' x y by (simp add: view_2_3_def)
  with point_sampling_front n camera_coords_at_identity [of "128 / 5" "64 / 5" "6 / 5"]
  show ?thesis by (intro conjI) simp_all
qed

subsection \<open>The two projectors compared\<close>

lemma length_matvec: "length (matvec m v) = length m"
  by (simp add: matvec_def)

text \<open>
  For one point, the variant returns the pixel coordinates of the base method and the
  normalised depth as third channel; its mask is the base mask with the depth gate applied
  to the normalised depth.
\<close>

lemma project_pixel_DFA3D_eq:
  assumes "3 \<le> length rc" "2 \<le> length post_rot" "2 \<le> length post_tran"
  shows "project_pixel_DFA3D (d_bound0, d_bound1, d_bound2) final_dim post_rot post_tran rc =
     (case project_pixel final_dim post_rot post_tran rc of ((x, y), m) \<Rightarrow>
        let dn = (rc ! 2 - d_bound0) / (d_bound1 - d_bound0)
        in ((x, y, dn), dn > eps \<and> x > eps \<and> x < 1.0 - eps \<and> y > eps \<and> y < 1.0 - eps))"
proof -
  obtain ogfH ogfW where fd: "final_dim = (ogfH, ogfW)" by (cases final_dim)
  let ?uv0 = "map (\<lambda>c. c / depth_divisor (view_2_3 rc)) (take 2 rc)"
  let ?uv1 = "matvec (post_rot_2x2 post_rot) ?uv0"
  let ?uv2 = "map2 (+) ?uv1 (take 2 post_tran)"
  have l0: "length ?uv0 = 2" using assms(1) by simp
  have l1: "length ?uv1 = 2" using assms(2) by (simp add: length_matvec post_rot_2x2_def)
  have l2: "length ?uv2 = 2" using l1 assms(3) by simp
  have t0: "take 2 (?uv0 @ drop 2 rc) = ?uv0" "drop 2 (?uv0 @ drop 2 rc) = drop 2 rc"
    using l0 by simp_all
  have t1: "take 2 (?uv1 @ drop 2 rc) = ?uv1" "drop 2 (?uv1 @ drop 2 rc) = drop 2 rc"
    using l1 by simp_all
  obtain a b where uv2: "?uv2 = [a, b]"
    using l2 by (cases ?uv2; cases "tl ?uv2") auto
  obtain r0 r1 r2 rs where rc: "rc = r0 # r1 # r2 # rs"
    using assms(1) by (cases rc; cases "tl rc"; cases "tl (tl rc)") auto
  have d: "drop 2 rc = r2 # rs" "rc ! 2 = r2" by (simp_all add: rc)
  show ?thesis
    unfolding project_pixel_DFA3D_def project_pixel_def fd Let_def prod.case t0 t1 uv2
    by (simp add: view_2_3_def d)
qed

text \<open>
  Claim C2 fails on the code. In VoxFormerEncoder_DFA3D.point_sampling, \<open>points_d\<close> is a
  view of channel 2 of \<open>reference_points_cam\<close>, and line 319 overwrites that channel with
  the normalised depth before the mask is computed: the depth gate of the variant tests
  \<open>(d - d_bound[0]) / (d_bound[1] - d_bound[0]) > eps\<close>, not \<open>d > eps\<close>. For a point at
  depth 1.2 in front of the identity camera and the default \<open>d_bound = [2, 58, 0.5]\<close>, both
  methods return the pixel coordinates \<open>(1/60, 1/36)\<close> and the variant adds the normalised
  depth \<open>- 1/70\<close>, but the base mask is True and the variant's mask is False.
\<close>

theorem point_sampling_DFA3D_mask_differs:
  "point_sampling (384, 1280) [[[(0.5, 0.75, 0.5)]]] kitti_range identity_camera =
     ([[[(128 / 5, 64 / 5, 6 / 5)]]], Inr ([[[[(1 / 60, 1 / 36)]]]], [[[[True]]]])) \<and>
   point_sampling_DFA3D (2, 58, 0.5) (384, 1280) [[[(0.5, 0.75, 0.5)]]] kitti_range
       identity_camera =
     ([[[(128 / 5, 64 / 5, 6 / 5)]]],
      Inr ([[[[(1 / 60, 1 / 36, - (1 / 70))]]]], [[[[False]]]]))"
  using point_sampling_front point_sampling_DFA3D_front by (rule conjI)

subsection \<open>The perspective divide\<close>






section \<open>Properties of the encoder\<close>

lemma run_layers_eq:
  "run_layers ls mk ri st =
     (let outs = layer_outputs ls mk (es_bev_query st)
      in \<lparr>es_bev_query = last (es_bev_query st # outs),
          es_output = last (es_output st # outs),
          es_intermediate = es_intermediate st @ (if ri then outs else []),
          es_calls = es_calls st @ map mk (butlast (es_bev_query st # outs))\<rparr>)"
proof (induction ls arbitrary: st)
  case Nil
  show ?case by simp
next
  case (Cons layer ls)
  show ?case
    by (simp add: Cons.IH Let_def)
qed



lemma get_reference_points_512:
  "get_reference_points 512 512 8 4 ''2d'' (int bs) =
     Inr (Ref2D (replicate bs (ref_2d_grid (centers 512) (centers 512) 512 512)))"
  using get_ref_2d_eq [of 512 512 "int bs" 8 4] by simp

lemma forward_calls:
  "call \<in> set (snd (snd (forward T E a))) \<Longrightarrow>
   \<exists>ref_3d rpc bm q.
     point_sampling_of E (fa_ref_3d a) (pc_range_of E) (fa_cam_params a) = (ref_3d, Inr (rpc, bm)) \<and>
     call = layer_call_of T a (ref_2d_512 (size_1 T (fa_bev_query a))) ref_3d rpc bm q"
  by (auto simp: forward_def get_reference_points_512 run_layers_eq Let_def ref_2d_512_def
      split: option.splits prod.splits sum.splits)

lemma forward_success:
  assumes "fa_kwargs a ''img_metas'' = Some im"
    and "point_sampling_of E (fa_ref_3d a) (pc_range_of E) (fa_cam_params a) = (ref_3d, Inr (rpc, bm))"
  shows "forward T E a =
    (let mk = layer_call_of T a (ref_2d_512 (size_1 T (fa_bev_query a))) ref_3d rpc bm;
         outs = layer_outputs (layers E) mk (permute_1_0_2 T (fa_bev_query a))
     in (ref_3d,
         (if return_intermediate E then stack outs else Inr (Single (last (fa_bev_query a # outs)))),
         map mk (butlast (permute_1_0_2 T (fa_bev_query a) # outs))))"
  using assms
  by (simp add: forward_def get_reference_points_512 run_layers_eq Let_def ref_2d_512_def)


lemma layer_call_of_simps:
  "lc_ref_2d (layer_call_of T a r2 r3 rpc bm q) = r2"
  "lc_ref_3d (layer_call_of T a r2 r3 rpc bm q) = r3"
  "lc_bev_query (layer_call_of T a r2 r3 rpc bm q) = q"
  by (simp_all add: layer_call_of_def)

lemma ref_2d_grid_length:
  "length (ref_2d_grid ys xs H W) = length ys * length xs"
  by (simp add: ref_2d_grid_def grid_length)

text \<open>The example encoder, run on a point in front of the identity camera.\<close>

lemma example_point_sampling:
  "point_sampling_of (example_encoder ri) (fa_ref_3d example_forward_args)
     (pc_range_of (example_encoder ri)) (fa_cam_params example_forward_args) =
   ([[[(128 / 5, 64 / 5, 6 / 5)]]], Inr ([[[[(1 / 60, 1 / 36)]]]], [[[[True]]]]))"
  by (simp add: example_encoder_def example_forward_args_def point_sampling_front [simplified])

lemma example_img_metas: "fa_kwargs example_forward_args ''img_metas'' = Some ()"
  by (simp add: example_forward_args_def)

lemma example_layers:
  "layers (example_encoder ri) = [\<lambda>call. lc_bev_query call + 1, \<lambda>call. 2 * lc_bev_query call]"
  "return_intermediate (example_encoder ri) = ri"
  "pc_range_of (example_encoder ri) = kitti_range"
  by (simp_all add: example_encoder_def)

lemma example_ops_simps:
  "size_1 example_ops t = 1" "permute_1_0_2 example_ops t = t"
  "fa_bev_query example_forward_args = 3"
  "fa_ref_3d example_forward_args = [[[(0.5, 0.75, 0.5)]]]"
  by (simp_all add: example_ops_def example_forward_args_def)

lemma example_forward:
  "forward example_ops (example_encoder ri) example_forward_args =
     ([[[(128 / 5, 64 / 5, 6 / 5)]]],
      (if ri then Inr (Stacked [4, 8]) else Inr (Single 8)),
      map (layer_call_of example_ops example_forward_args (ref_2d_512 1)
             [[[(128 / 5, 64 / 5, 6 / 5)]]] [[[[(1 / 60, 1 / 36)]]]] [[[[True]]]]) [3, 4])"
  unfolding forward_success [OF example_img_metas example_point_sampling]
  by (simp add: example_layers example_ops_simps layer_call_of_simps stack_def Let_def)




text \<open>
  Claim C5: whatever \<open>bev_h\<close> and \<open>bev_w\<close> the caller supplies, every layer receives as
  \<open>ref_2d\<close> the 2D reference points of a 512 by 512 grid (each batch entry twice): the
  result of get_reference_points(512, 512, dim='2d') for the batch size of \<open>bev_query\<close>,
  with \<open>512 * 512\<close> points per batch entry.
\<close>

theorem forward_ref_2d_fixed_grid:
  "(\<forall>call \<in> set (snd (snd (forward T E (a\<lparr>fa_bev_h := bev_h, fa_bev_w := bev_w\<rparr>)))).
      lc_ref_2d call = ref_2d_512 (size_1 T (fa_bev_query a))) \<and>
   (\<exists>g. get_reference_points 512 512 8 4 ''2d'' (int bs) = Inr (Ref2D g) \<and>
        ref_2d_512 bs = hybird g \<and> length g = bs \<and> (\<forall>b < bs. length (g ! b) = 512 * 512))"
proof (intro conjI ballI)
  show "lc_ref_2d call = ref_2d_512 (size_1 T (fa_bev_query a))"
    if "call \<in> set (snd (snd (forward T E (a\<lparr>fa_bev_h := bev_h, fa_bev_w := bev_w\<rparr>))))" for call
    using forward_calls [OF that] by (auto simp: layer_call_of_simps)
  let ?g = "replicate bs (ref_2d_grid (centers 512) (centers 512) 512 512)"
  have "get_reference_points 512 512 8 4 ''2d'' (int bs) = Inr (Ref2D ?g) \<and>
        ref_2d_512 bs = hybird ?g \<and> length ?g = bs \<and> (\<forall>b < bs. length (?g ! b) = 512 * 512)"
    by (simp add: get_reference_points_512 ref_2d_512_def ref_2d_grid_length centers_def)
  then show "\<exists>g. get_reference_points 512 512 8 4 ''2d'' (int bs) = Inr (Ref2D g) \<and>
        ref_2d_512 bs = hybird g \<and> length g = bs \<and> (\<forall>b < bs. length (g ! b) = 512 * 512)"
    by (rule exI [of _ ?g])
qed

theorem forward_ref_2d_fixed_grid_witness:
  "map lc_ref_2d (snd (snd (forward example_ops (example_encoder True)
      (example_forward_args\<lparr>fa_bev_h := Some 128, fa_bev_w := Some 128\<rparr>)))) =
     [ref_2d_512 1, ref_2d_512 1]"
proof -
  have a: "example_forward_args\<lparr>fa_bev_h := Some 128, fa_bev_w := Some 128\<rparr> = example_forward_args"
    by (simp add: example_forward_args_def)
  from forward_ref_2d_fixed_grid [of example_ops "example_encoder True" "Some 128" "Some 128"
      example_forward_args 1]
  have "\<forall>call \<in> set (snd (snd (forward example_ops (example_encoder True)
      (example_forward_args\<lparr>fa_bev_h := Some 128, fa_bev_w := Some 128\<rparr>)))).
      lc_ref_2d call = ref_2d_512 1"
    by (simp only: example_ops_simps) (rule conjunct1)
  then show ?thesis
    unfolding a by (simp add: example_forward)
qed







end
